theory Spec2Isabelle
  imports Main "HOL-Library.Char_ord" "HOL-Library.List_Lexorder" "HOL-Library.Sublist"
begin

section \<open>Python strings\<close>

text \<open>
  A Python \<open>str\<close> is modelled as a \<^typ>\<open>string\<close> whose characters are the code points
  below 256. On this range \<open>str.isspace\<close>, \<open>str.strip\<close> and \<open>str.lower\<close> are as follows.
\<close>

definition isspace :: "char \<Rightarrow> bool" where
  "isspace c =
     (let n = (of_char c :: nat)
      in (9 \<le> n \<and> n \<le> 13) \<or> (28 \<le> n \<and> n \<le> 32) \<or> n = 133 \<or> n = 160)"

definition strip :: "string \<Rightarrow> string" where
  "strip s = rev (dropWhile isspace (rev (dropWhile isspace s)))"

definition lower_char :: "char \<Rightarrow> char" where
  "lower_char c =
     (let n = (of_char c :: nat)
      in if (65 \<le> n \<and> n \<le> 90) \<or> (192 \<le> n \<and> n \<le> 222 \<and> n \<noteq> 215)
         then char_of (n + 32) else c)"

definition lower :: "string \<Rightarrow> string" where
  "lower s = map lower_char s"

text \<open>The operator \<open>needle in hay\<close> on two strings.\<close>

fun str_in :: "string \<Rightarrow> string \<Rightarrow> bool" where
  "str_in needle [] = (needle = [])"
| "str_in needle (c # cs) = (prefix needle (c # cs) \<or> str_in needle cs)"

text \<open>Truthiness of a string: \<open>bool(s)\<close>.\<close>

definition truthy :: "string \<Rightarrow> bool" where
  "truthy s = (s \<noteq> [])"

text \<open>Decimal rendering of an integer, as an f-string does it.\<close>

definition digit_char :: "nat \<Rightarrow> char" where
  "digit_char n = ''0123456789'' ! n"

function str_nat :: "nat \<Rightarrow> string" where
  "str_nat n = (if n < 10 then [digit_char n] else str_nat (n div 10) @ [digit_char (n mod 10)])"
  by pat_completeness auto
termination
  by (relation "measure (\<lambda>n. n)") auto

declare str_nat.simps [simp del]

definition str_int :: "int \<Rightarrow> string" where
  "str_int i = (if i < 0 then CHR ''-'' # str_nat (nat (- i)) else str_nat (nat i))"

section \<open>Domain model (models.py)\<close>

subsection \<open>Employee\<close>

record Employee =
  emp_id :: "int option"
  fname :: string
  lname :: string
  department :: string
  ph_number :: string

definition clean_string :: "string option \<Rightarrow> string" where
  "clean_string v = (case v of None \<Rightarrow> [] | Some s \<Rightarrow> strip s)"

text \<open>The constructor: the dataclass initialiser followed by \<open>__post_init__\<close>.\<close>

definition new_Employee ::
  "int option \<Rightarrow> string option \<Rightarrow> string option \<Rightarrow> string option \<Rightarrow> string option \<Rightarrow> Employee"
where
  "new_Employee i fn ln dp ph =
     \<lparr>emp_id = i, fname = clean_string fn, lname = clean_string ln,
      department = clean_string dp, ph_number = clean_string ph\<rparr>"

definition get_full_name :: "Employee \<Rightarrow> string" where
  "get_full_name e = strip (fname e @ '' '' @ lname e)"

definition is_valid :: "Employee \<Rightarrow> bool" where
  "is_valid e =
     (truthy (fname e) \<and> truthy (lname e) \<and> truthy (department e) \<and> truthy (ph_number e))"

definition get_validation_errors :: "Employee \<Rightarrow> string list" where
  "get_validation_errors e =
     (if \<not> truthy (fname e) then [''First name is required''] else []) @
     (if \<not> truthy (lname e) then [''Last name is required''] else []) @
     (if \<not> truthy (department e) then [''Department is required''] else []) @
     (if \<not> truthy (ph_number e) then [''Phone number is required''] else [])"

subsection \<open>Search criteria\<close>

record EmployeeSearchCriteria =
  search_term :: string
  criteria_department :: string

definition new_EmployeeSearchCriteria :: "string \<Rightarrow> string \<Rightarrow> EmployeeSearchCriteria" where
  "new_EmployeeSearchCriteria term dp = \<lparr>search_term = strip term, criteria_department = strip dp\<rparr>"

definition has_search_term :: "EmployeeSearchCriteria \<Rightarrow> bool" where
  "has_search_term c = truthy (search_term c)"

definition has_department_filter :: "EmployeeSearchCriteria \<Rightarrow> bool" where
  "has_department_filter c = truthy (criteria_department c)"

definition is_empty :: "EmployeeSearchCriteria \<Rightarrow> bool" where
  "is_empty c = (\<not> has_search_term c \<and> \<not> has_department_filter c)"

subsection \<open>Update request\<close>

record EmployeeUpdateData =
  new_fname :: "string option"
  new_lname :: "string option"
  new_department :: "string option"
  new_ph_number :: "string option"

text \<open>One argument of the initialiser: \<open>v.strip() if v else None\<close>. The test is on the
  argument as given, before it is stripped.\<close>

definition strip_if_given :: "string option \<Rightarrow> string option" where
  "strip_if_given v =
     (case v of None \<Rightarrow> None | Some s \<Rightarrow> if truthy s then Some (strip s) else None)"

definition new_EmployeeUpdateData ::
  "string option \<Rightarrow> string option \<Rightarrow> string option \<Rightarrow> string option \<Rightarrow> EmployeeUpdateData"
where
  "new_EmployeeUpdateData fn ln dp ph =
     \<lparr>new_fname = strip_if_given fn, new_lname = strip_if_given ln,
      new_department = strip_if_given dp, new_ph_number = strip_if_given ph\<rparr>"

definition has_updates :: "EmployeeUpdateData \<Rightarrow> bool" where
  "has_updates u =
     (new_fname u \<noteq> None \<or> new_lname u \<noteq> None \<or> new_department u \<noteq> None \<or>
      new_ph_number u \<noteq> None)"

section \<open>Storage engine (data_access_layer.py)\<close>

text \<open>
  One row of the table \<open>employee\<close>: an integer primary key and four nullable text
  columns (\<open>None\<close> is SQL \<open>NULL\<close>).
\<close>

record row =
  col_id :: int
  col_fname :: "string option"
  col_lname :: "string option"
  col_department :: "string option"
  col_phNumber :: "string option"

text \<open>
  The database file: the rows of the table, and the outcome the engine will give to each
  of the coming statements, in order. \<open>Some cause\<close> makes the statement raise
  \<open>sqlite3.Error(cause)\<close>; \<open>None\<close>, or an exhausted list, lets it run. The rows are
  kept in any order; the primary key makes their ids distinct, which no property below
  relies on.
\<close>

record db =
  table :: "row list"
  faults :: "string option list"

datatype exn = SqliteError string | AttributeError string | KeyError string

fun str_exn :: "exn \<Rightarrow> string" where
  "str_exn (SqliteError m) = m"
| "str_exn (AttributeError m) = m"
| "str_exn (KeyError m) = m"

definition connect :: "db \<Rightarrow> string option \<times> db" where
  "connect d = (case faults d of [] \<Rightarrow> (None, d) | f # fs \<Rightarrow> (f, d\<lparr>faults := fs\<rparr>))"

text \<open>Every method of the layer runs one statement and re-raises a failure of the
  engine with its own prefix.\<close>

definition statement :: "string \<Rightarrow> (row list \<Rightarrow> 'a \<times> row list) \<Rightarrow> db \<Rightarrow> (exn + 'a) \<times> db" where
  "statement what run d =
     (case connect d of
        (Some cause, d') \<Rightarrow> (Inl (SqliteError (what @ '': '' @ cause)), d')
      | (None, d') \<Rightarrow> (case run (table d') of (a, t') \<Rightarrow> (Inr a, d'\<lparr>table := t'\<rparr>)))"

text \<open>\<open>ORDER BY id\<close>.\<close>

definition order_by_id :: "row list \<Rightarrow> row list" where
  "order_by_id rs = sort_key col_id rs"

text \<open>The key the engine gives to an inserted row: one more than the largest key of the
  table, 1 for the empty table. (Keys are unbounded integers here.)\<close>

definition next_rowid :: "row list \<Rightarrow> int" where
  "next_rowid rs = (if rs = [] then 1 else Max (set (map col_id rs)) + 1)"

definition dal_create_employee ::
  "string \<Rightarrow> string \<Rightarrow> string \<Rightarrow> string \<Rightarrow> db \<Rightarrow> (exn + int) \<times> db"
where
  "dal_create_employee fn ln dp ph =
     statement ''Failed to create employee''
       (\<lambda>t. let i = next_rowid t
            in (i, t @ [\<lparr>col_id = i, col_fname = Some fn, col_lname = Some ln,
                          col_department = Some dp, col_phNumber = Some ph\<rparr>]))"

definition dal_get_employee_by_id :: "int \<Rightarrow> db \<Rightarrow> (exn + row option) \<times> db" where
  "dal_get_employee_by_id employee_id =
     statement ''Failed to get employee by ID'' (\<lambda>t. (find (\<lambda>r. col_id r = employee_id) t, t))"

definition dal_get_all_employees :: "db \<Rightarrow> (exn + row list) \<times> db" where
  "dal_get_all_employees = statement ''Failed to get all employees'' (\<lambda>t. (order_by_id t, t))"

definition dal_get_employees_by_department :: "string \<Rightarrow> db \<Rightarrow> (exn + row list) \<times> db" where
  "dal_get_employees_by_department dp =
     statement ''Failed to get employees by department''
       (\<lambda>t. (order_by_id (filter (\<lambda>r. col_department r = Some dp) t), t))"

definition set_columns ::
  "string option \<Rightarrow> string option \<Rightarrow> string option \<Rightarrow> string option \<Rightarrow> row \<Rightarrow> row"
where
  "set_columns fn ln dp ph r =
     r\<lparr>col_fname := (case fn of None \<Rightarrow> col_fname r | Some v \<Rightarrow> Some v),
       col_lname := (case ln of None \<Rightarrow> col_lname r | Some v \<Rightarrow> Some v),
       col_department := (case dp of None \<Rightarrow> col_department r | Some v \<Rightarrow> Some v),
       col_phNumber := (case ph of None \<Rightarrow> col_phNumber r | Some v \<Rightarrow> Some v)\<rparr>"

text \<open>Without a field to set the method returns \<open>False\<close> before it reaches the engine.\<close>

definition dal_update_employee ::
  "int \<Rightarrow> string option \<Rightarrow> string option \<Rightarrow> string option \<Rightarrow> string option \<Rightarrow> db
     \<Rightarrow> (exn + bool) \<times> db"
where
  "dal_update_employee employee_id fn ln dp ph d =
     (if fn = None \<and> ln = None \<and> dp = None \<and> ph = None then (Inr False, d)
      else statement ''Failed to update employee''
             (\<lambda>t. (\<exists>r \<in> set t. col_id r = employee_id,
                   map (\<lambda>r. if col_id r = employee_id then set_columns fn ln dp ph r else r) t))
             d)"

definition dal_delete_employee :: "int \<Rightarrow> db \<Rightarrow> (exn + bool) \<times> db" where
  "dal_delete_employee employee_id =
     statement ''Failed to delete employee''
       (\<lambda>t. (\<exists>r \<in> set t. col_id r = employee_id, filter (\<lambda>r. col_id r \<noteq> employee_id) t))"

text \<open>
  The operator \<open>LIKE\<close> of the engine: \<open>%\<close> stands for any run of characters, \<open>_\<close> for
  one character, and the letters A to Z match without regard to case. The engine reads
  the pattern and the text as C strings, that is up to their first NUL character.
\<close>

definition ascii_lower :: "char \<Rightarrow> char" where
  "ascii_lower c =
     (let n = (of_char c :: nat) in if 65 \<le> n \<and> n \<le> 90 then char_of (n + 32) else c)"

fun pattern_compare :: "string \<Rightarrow> string \<Rightarrow> bool" where
  "pattern_compare [] [] = True"
| "pattern_compare [] (c # cs) = False"
| "pattern_compare (p # ps) [] = (p = CHR ''%'' \<and> pattern_compare ps [])"
| "pattern_compare (p # ps) (c # cs) =
     (if p = CHR ''%'' then pattern_compare ps (c # cs) \<or> pattern_compare (p # ps) cs
      else if p = CHR ''_'' then pattern_compare ps cs
      else ascii_lower p = ascii_lower c \<and> pattern_compare ps cs)"

definition c_string :: "string \<Rightarrow> string" where
  "c_string s = takeWhile (\<lambda>c. c \<noteq> CHR 0x00) s"

definition like :: "string \<Rightarrow> string \<Rightarrow> bool" where
  "like pat s = pattern_compare (c_string pat) (c_string s)"

definition column_like :: "string option \<Rightarrow> string \<Rightarrow> bool" where
  "column_like v pat = (case v of None \<Rightarrow> False | Some s \<Rightarrow> like pat s)"

text \<open>
  The engine refuses a pattern of more than 50000 bytes when it evaluates \<open>LIKE\<close>, which
  it does as soon as the table has a row. A code point below 128 is one byte of the
  pattern, another one is two.
\<close>

definition utf8_length :: "string \<Rightarrow> nat" where
  "utf8_length s = sum_list (map (\<lambda>c. if (of_char c :: nat) < 128 then 1 else 2) s)"

definition dal_search_employees :: "string \<Rightarrow> db \<Rightarrow> (exn + row list) \<times> db" where
  "dal_search_employees term d =
     (let search_pattern = ''%'' @ term @ ''%''
      in case connect d of
           (Some cause, d') \<Rightarrow>
             (Inl (SqliteError (''Failed to search employees: '' @ cause)), d')
         | (None, d') \<Rightarrow>
             if table d' \<noteq> [] \<and> 50000 < utf8_length search_pattern
             then (Inl (SqliteError
                     ''Failed to search employees: LIKE or GLOB pattern too complex''), d')
             else (Inr (order_by_id
                          (filter (\<lambda>r. column_like (col_fname r) search_pattern \<or>
                                        column_like (col_lname r) search_pattern)
                             (table d'))), d'))"

definition dal_get_employee_count :: "db \<Rightarrow> (exn + nat) \<times> db" where
  "dal_get_employee_count = statement ''Failed to get employee count'' (\<lambda>t. (length t, t))"

text \<open>\<open>SELECT DISTINCT department ... WHERE department IS NOT NULL ORDER BY department\<close>.\<close>

definition dal_get_departments :: "db \<Rightarrow> (exn + string list) \<times> db" where
  "dal_get_departments =
     statement ''Failed to get departments''
       (\<lambda>t. (sort (remdups (List.map_filter col_department t)), t))"

section \<open>Business rules (controller.py)\<close>

subsection \<open>The result dictionary\<close>

record stats =
  total_employees :: nat
  total_departments :: nat
  stats_departments :: "string list"
  employees_per_department :: "(string \<times> nat) list"

text \<open>A field is \<open>None\<close> when the dictionary has no such key.\<close>

record envelope =
  success :: bool
  message :: "string option"
  errors :: "string list option"
  employee_id :: "int option"
  employee :: "Employee option"
  employees :: "Employee list option"
  statistics :: "stats option"
  departments :: "string list option"

definition result :: "bool \<Rightarrow> string \<Rightarrow> envelope" where
  "result ok msg =
     \<lparr>success = ok, message = Some msg, errors = None, employee_id = None, employee = None,
      employees = None, statistics = None, departments = None\<rparr>"

text \<open>The handler \<open>except Exception as e\<close> that closes every method.\<close>

definition except_Exception :: "string \<Rightarrow> (exn + envelope) \<times> db \<Rightarrow> envelope \<times> db" where
  "except_Exception what r =
     (case r of
        (Inl e, d) \<Rightarrow> (result False (what @ '': '' @ str_exn e), d)
      | (Inr env, d) \<Rightarrow> (env, d))"

definition from_dict :: "row \<Rightarrow> Employee" where
  "from_dict data =
     new_Employee (Some (col_id data)) (col_fname data) (col_lname data) (col_department data)
       (col_phNumber data)"

subsection \<open>create_employee\<close>

definition create_employee_try ::
  "string \<Rightarrow> string \<Rightarrow> string \<Rightarrow> string \<Rightarrow> db \<Rightarrow> (exn + envelope) \<times> db"
where
  "create_employee_try fn ln dp ph d =
     (let emp = new_Employee None (Some fn) (Some ln) (Some dp) (Some ph)
      in if \<not> is_valid emp
         then (Inr ((result False ''Validation failed'')
                      \<lparr>errors := Some (get_validation_errors emp)\<rparr>), d)
         else
           (case dal_get_all_employees d of
              (Inl e, d1) \<Rightarrow> (Inl e, d1)
            | (Inr existing_employees, d1) \<Rightarrow>
                if \<exists>r \<in> set existing_employees. col_phNumber r = Some ph
                then (Inr (result False
                        (''Employee with phone number '' @ ph @ '' already exists'')), d1)
                else
                  (case dal_create_employee fn ln dp ph d1 of
                     (Inl e, d2) \<Rightarrow> (Inl e, d2)
                   | (Inr new_id, d2) \<Rightarrow>
                       (Inr ((result True
                                (''Employee created successfully with ID: '' @ str_int new_id))
                               \<lparr>employee_id := Some new_id\<rparr>), d2))))"

definition create_employee ::
  "string \<Rightarrow> string \<Rightarrow> string \<Rightarrow> string \<Rightarrow> db \<Rightarrow> envelope \<times> db"
where
  "create_employee fn ln dp ph d =
     except_Exception ''Failed to create employee'' (create_employee_try fn ln dp ph d)"

subsection \<open>get_employee, get_all_employees\<close>

definition get_employee_try :: "int \<Rightarrow> db \<Rightarrow> (exn + envelope) \<times> db" where
  "get_employee_try eid d =
     (case dal_get_employee_by_id eid d of
        (Inl e, d1) \<Rightarrow> (Inl e, d1)
      | (Inr None, d1) \<Rightarrow>
          (Inr (result False (''Employee with ID '' @ str_int eid @ '' not found'')), d1)
      | (Inr (Some employee_data), d1) \<Rightarrow>
          (Inr ((result True ''Employee retrieved successfully'')
                  \<lparr>employee := Some (from_dict employee_data)\<rparr>), d1))"

definition get_employee :: "int \<Rightarrow> db \<Rightarrow> envelope \<times> db" where
  "get_employee eid d = except_Exception ''Failed to retrieve employee'' (get_employee_try eid d)"

definition found :: "string \<Rightarrow> string \<Rightarrow> Employee list \<Rightarrow> envelope" where
  "found pre post es =
     (result True (pre @ str_nat (length es) @ post))\<lparr>employees := Some es\<rparr>"

definition get_all_employees_try :: "db \<Rightarrow> (exn + envelope) \<times> db" where
  "get_all_employees_try d =
     (case dal_get_all_employees d of
        (Inl e, d1) \<Rightarrow> (Inl e, d1)
      | (Inr employees_data, d1) \<Rightarrow>
          (Inr (found ''Retrieved '' '' employees'' (map from_dict employees_data)), d1))"

definition get_all_employees :: "db \<Rightarrow> envelope \<times> db" where
  "get_all_employees d =
     except_Exception ''Failed to retrieve employees'' (get_all_employees_try d)"

subsection \<open>search_employees\<close>

text \<open>
  The test of the branch for a term and a department, on one row. Reading \<open>.lower()\<close> of
  a \<open>NULL\<close> name raises; \<open>or\<close> does not read the last name when the first name matches.
\<close>

definition NoneType_lower :: exn where
  "NoneType_lower =
     AttributeError ([CHR 0x27] @ ''NoneType'' @ [CHR 0x27] @ '' object has no attribute '' @
                     [CHR 0x27] @ ''lower'' @ [CHR 0x27])"

definition name_matches :: "string \<Rightarrow> row \<Rightarrow> exn + bool" where
  "name_matches term r =
     (case col_fname r of
        None \<Rightarrow> Inl NoneType_lower
      | Some f \<Rightarrow>
          if str_in (lower term) (lower f) then Inr True
          else (case col_lname r of
                  None \<Rightarrow> Inl NoneType_lower
                | Some l \<Rightarrow> Inr (str_in (lower term) (lower l))))"

definition row_matches :: "EmployeeSearchCriteria \<Rightarrow> row \<Rightarrow> exn + bool" where
  "row_matches c r =
     (case name_matches (search_term c) r of
        Inl e \<Rightarrow> Inl e
      | Inr b \<Rightarrow> Inr (b \<and> col_department r = Some (criteria_department c)))"

text \<open>The list comprehension: the rows are read in order, and the first one that raises
  ends it.\<close>

fun select_matching :: "EmployeeSearchCriteria \<Rightarrow> row list \<Rightarrow> exn + Employee list" where
  "select_matching c [] = Inr []"
| "select_matching c (r # rs) =
     (case row_matches c r of
        Inl e \<Rightarrow> Inl e
      | Inr b \<Rightarrow>
          (case select_matching c rs of
             Inl e \<Rightarrow> Inl e
           | Inr es \<Rightarrow> Inr (if b then from_dict r # es else es)))"

definition search_employees_try :: "EmployeeSearchCriteria \<Rightarrow> db \<Rightarrow> (exn + envelope) \<times> db" where
  "search_employees_try c d =
     (if is_empty c then
        (case get_all_employees d of
           (res, d1) \<Rightarrow>
             if success res
             then (case employees res of
                     None \<Rightarrow> (Inl (KeyError ([CHR 0x27] @ ''employees'' @ [CHR 0x27])), d1)
                   | Some es \<Rightarrow> (Inr (found ''Found '' '' matching employees'' es), d1))
             else (Inr (found ''Found '' '' matching employees'' []), d1))
      else if has_search_term c \<and> has_department_filter c then
        (case dal_get_all_employees d of
           (Inl e, d1) \<Rightarrow> (Inl e, d1)
         | (Inr all_employees, d1) \<Rightarrow>
             (case select_matching c all_employees of
                Inl e \<Rightarrow> (Inl e, d1)
              | Inr es \<Rightarrow> (Inr (found ''Found '' '' matching employees'' es), d1)))
      else if has_search_term c then
        (case dal_search_employees (search_term c) d of
           (Inl e, d1) \<Rightarrow> (Inl e, d1)
         | (Inr employees_data, d1) \<Rightarrow>
             (Inr (found ''Found '' '' matching employees'' (map from_dict employees_data)), d1))
      else if has_department_filter c then
        (case dal_get_employees_by_department (criteria_department c) d of
           (Inl e, d1) \<Rightarrow> (Inl e, d1)
         | (Inr employees_data, d1) \<Rightarrow>
             (Inr (found ''Found '' '' matching employees'' (map from_dict employees_data)), d1))
      else (Inr (found ''Found '' '' matching employees'' []), d))"

definition search_employees :: "EmployeeSearchCriteria \<Rightarrow> db \<Rightarrow> envelope \<times> db" where
  "search_employees c d =
     except_Exception ''Failed to search employees'' (search_employees_try c d)"

subsection \<open>update_employee\<close>

definition perform_update :: "int \<Rightarrow> EmployeeUpdateData \<Rightarrow> db \<Rightarrow> (exn + envelope) \<times> db" where
  "perform_update eid u d =
     (case dal_update_employee eid (new_fname u) (new_lname u) (new_department u)
             (new_ph_number u) d of
        (Inl e, d1) \<Rightarrow> (Inl e, d1)
      | (Inr ok, d1) \<Rightarrow>
          (Inr (if ok then result True (''Employee '' @ str_int eid @ '' updated successfully'')
                else result False (''Failed to update employee '' @ str_int eid)), d1))"

definition update_employee_try :: "int \<Rightarrow> EmployeeUpdateData \<Rightarrow> db \<Rightarrow> (exn + envelope) \<times> db" where
  "update_employee_try eid u d =
     (case dal_get_employee_by_id eid d of
        (Inl e, d1) \<Rightarrow> (Inl e, d1)
      | (Inr None, d1) \<Rightarrow>
          (Inr (result False (''Employee with ID '' @ str_int eid @ '' not found'')), d1)
      | (Inr (Some existing_employee), d1) \<Rightarrow>
          if \<not> has_updates u then (Inr (result False ''No fields provided for update''), d1)
          else
            (case new_ph_number u of
               None \<Rightarrow> perform_update eid u d1
             | Some ph \<Rightarrow>
                 (case dal_get_all_employees d1 of
                    (Inl e, d2) \<Rightarrow> (Inl e, d2)
                  | (Inr all_employees, d2) \<Rightarrow>
                      if \<exists>r \<in> set all_employees. col_phNumber r = Some ph \<and> col_id r \<noteq> eid
                      then (Inr (result False
                              (''Phone number '' @ ph @
                               '' is already in use by another employee'')), d2)
                      else perform_update eid u d2)))"

definition update_employee :: "int \<Rightarrow> EmployeeUpdateData \<Rightarrow> db \<Rightarrow> envelope \<times> db" where
  "update_employee eid u d =
     except_Exception ''Failed to update employee'' (update_employee_try eid u d)"

subsection \<open>delete_employee\<close>

definition delete_employee_try :: "int \<Rightarrow> db \<Rightarrow> (exn + envelope) \<times> db" where
  "delete_employee_try eid d =
     (case dal_get_employee_by_id eid d of
        (Inl e, d1) \<Rightarrow> (Inl e, d1)
      | (Inr None, d1) \<Rightarrow>
          (Inr (result False (''Employee with ID '' @ str_int eid @ '' not found'')), d1)
      | (Inr (Some existing_employee), d1) \<Rightarrow>
          (case dal_delete_employee eid d1 of
             (Inl e, d2) \<Rightarrow> (Inl e, d2)
           | (Inr ok, d2) \<Rightarrow>
               (Inr (if ok
                     then result True (''Employee '' @ str_int eid @ '' deleted successfully'')
                     else result False (''Failed to delete employee '' @ str_int eid)), d2)))"

definition delete_employee :: "int \<Rightarrow> db \<Rightarrow> envelope \<times> db" where
  "delete_employee eid d =
     except_Exception ''Failed to delete employee'' (delete_employee_try eid d)"

subsection \<open>get_employee_statistics, get_departments\<close>

text \<open>The loop that asks the engine for the members of each department in turn.\<close>

fun count_departments :: "string list \<Rightarrow> db \<Rightarrow> (exn + (string \<times> nat) list) \<times> db" where
  "count_departments [] d = (Inr [], d)"
| "count_departments (dept # depts) d =
     (case dal_get_employees_by_department dept d of
        (Inl e, d1) \<Rightarrow> (Inl e, d1)
      | (Inr dept_employees, d1) \<Rightarrow>
          (case count_departments depts d1 of
             (Inl e, d2) \<Rightarrow> (Inl e, d2)
           | (Inr counts, d2) \<Rightarrow> (Inr ((dept, length dept_employees) # counts), d2)))"

text \<open>The dictionary of a successful call has the keys \<open>success\<close> and \<open>statistics\<close> only.\<close>

definition get_employee_statistics_try :: "db \<Rightarrow> (exn + envelope) \<times> db" where
  "get_employee_statistics_try d =
     (case dal_get_employee_count d of
        (Inl e, d1) \<Rightarrow> (Inl e, d1)
      | (Inr total_count, d1) \<Rightarrow>
          (case dal_get_departments d1 of
             (Inl e, d2) \<Rightarrow> (Inl e, d2)
           | (Inr depts, d2) \<Rightarrow>
               (case count_departments depts d2 of
                  (Inl e, d3) \<Rightarrow> (Inl e, d3)
                | (Inr department_counts, d3) \<Rightarrow>
                    (Inr \<lparr>success = True, message = None, errors = None, employee_id = None,
                          employee = None, employees = None,
                          statistics = Some \<lparr>total_employees = total_count,
                                             total_departments = length depts,
                                             stats_departments = depts,
                                             employees_per_department = department_counts\<rparr>,
                          departments = None\<rparr>, d3))))"

definition get_employee_statistics :: "db \<Rightarrow> envelope \<times> db" where
  "get_employee_statistics d =
     except_Exception ''Failed to get statistics'' (get_employee_statistics_try d)"

definition get_departments_try :: "db \<Rightarrow> (exn + envelope) \<times> db" where
  "get_departments_try d =
     (case dal_get_departments d of
        (Inl e, d1) \<Rightarrow> (Inl e, d1)
      | (Inr depts, d1) \<Rightarrow>
          (Inr ((result True (''Retrieved '' @ str_nat (length depts) @ '' departments''))
                  \<lparr>departments := Some depts\<rparr>), d1))"

definition get_departments :: "db \<Rightarrow> envelope \<times> db" where
  "get_departments d = except_Exception ''Failed to get departments'' (get_departments_try d)"

section \<open>Notions used by the properties\<close>

text \<open>The operation-specific parts of a result dictionary.\<close>

definition payload_absent :: "envelope \<Rightarrow> bool" where
  "payload_absent env =
     (employee_id env = None \<and> employee env = None \<and> employees env = None \<and>
      statistics env = None \<and> departments env = None)"

text \<open>The ids of a list of records, in the order of the list.\<close>

definition ids_of :: "Employee list \<Rightarrow> int list" where
  "ids_of es = List.map_filter emp_id es"

text \<open>A name column contains the term as a substring, letters compared without regard
  to case.\<close>

definition contains_ci :: "string \<Rightarrow> string option \<Rightarrow> bool" where
  "contains_ci term v =
     (case v of None \<Rightarrow> False | Some s \<Rightarrow> sublist (lower term) (lower s))"

text \<open>The rows a search for a term and a department asks for.\<close>

definition wanted :: "EmployeeSearchCriteria \<Rightarrow> row \<Rightarrow> bool" where
  "wanted c r =
     (col_department r = Some (criteria_department c) \<and>
      (contains_ci (search_term c) (col_fname r) \<or> contains_ci (search_term c) (col_lname r)))"

text \<open>The rows on which that search reads a \<open>NULL\<close> name: the first name is \<open>NULL\<close>, or
  the first name does not contain the term and the last name is \<open>NULL\<close>.\<close>

definition unreadable :: "EmployeeSearchCriteria \<Rightarrow> row \<Rightarrow> bool" where
  "unreadable c r =
     (col_fname r = None \<or>
      (\<not> contains_ci (search_term c) (col_fname r) \<and> col_lname r = None))"

text \<open>One message for each required field that is blank once trimmed, in the order first
  name, last name, department, phone number.\<close>

definition missing_fields :: "string \<Rightarrow> string \<Rightarrow> string \<Rightarrow> string \<Rightarrow> string list" where
  "missing_fields fn ln dp ph =
     map snd (filter (\<lambda>(v, m). strip v = [])
       [(fn, ''First name is required''), (ln, ''Last name is required''),
        (dp, ''Department is required''), (ph, ''Phone number is required'')])"

text \<open>Two small stores on a working engine, used as concrete inputs.\<close>

definition one_row_db :: db where
  "one_row_db =
     \<lparr>table = [\<lparr>col_id = 4, col_fname = Some ''Amy'', col_lname = Some ''Garcia'',
                 col_department = Some ''HR'', col_phNumber = Some ''555-0108''\<rparr>],
      faults = []\<rparr>"

definition two_row_db :: db where
  "two_row_db =
     \<lparr>table = [\<lparr>col_id = 4, col_fname = Some ''Amy'', col_lname = Some ''Garcia'',
                 col_department = Some ''HR'', col_phNumber = Some ''555-0108''\<rparr>,
                \<lparr>col_id = 7, col_fname = Some ''Tom'', col_lname = Some ''Wilson'',
                 col_department = Some ''Engineering'', col_phNumber = Some ''555-0107''\<rparr>],
      faults = []\<rparr>"

text \<open>A store of three rows, not in the order of their ids, and the records it holds.\<close>

definition fixture_db :: db where
  "fixture_db =
     \<lparr>table = [\<lparr>col_id = 3, col_fname = Some ''Anna'', col_lname = Some ''Lee'',
                 col_department = Some ''Marketing'', col_phNumber = Some ''555-0103''\<rparr>,
                \<lparr>col_id = 1, col_fname = Some ''John'', col_lname = Some ''Doe'',
                 col_department = Some ''Engineering'', col_phNumber = Some ''555-0101''\<rparr>,
                \<lparr>col_id = 2, col_fname = Some ''Anna'', col_lname = Some ''Lee'',
                 col_department = Some ''Engineering'', col_phNumber = Some ''555-0102''\<rparr>],
      faults = []\<rparr>"

definition fixture_employees :: "Employee list" where
  "fixture_employees =
     [\<lparr>emp_id = Some 1, fname = ''John'', lname = ''Doe'', department = ''Engineering'',
       ph_number = ''555-0101''\<rparr>,
      \<lparr>emp_id = Some 2, fname = ''Anna'', lname = ''Lee'', department = ''Engineering'',
       ph_number = ''555-0102''\<rparr>,
      \<lparr>emp_id = Some 3, fname = ''Anna'', lname = ''Lee'', department = ''Marketing'',
       ph_number = ''555-0103''\<rparr>]"

text \<open>The outcomes the engine gave to the statements run between two states of the
  database, and whether one of them was a failure.\<close>

definition consumed :: "db \<Rightarrow> db \<Rightarrow> string option list" where
  "consumed d d' = take (length (faults d) - length (faults d')) (faults d)"

definition engine_failed :: "db \<Rightarrow> db \<Rightarrow> bool" where
  "engine_failed d d' = (\<exists>f \<in> set (consumed d d'). f \<noteq> None)"

text \<open>A result dictionary with a message, and without payload when it reports failure.\<close>

definition envelope_ok :: "envelope \<Rightarrow> bool" where
  "envelope_ok env = (message env \<noteq> None \<and> (\<not> success env \<longrightarrow> payload_absent env))"

text \<open>The result dictionary of the statistics: on success it holds \<open>success\<close> and the
  statistics only, without a message.\<close>

definition statistics_envelope_ok :: "envelope \<Rightarrow> bool" where
  "statistics_envelope_ok env =
     (if success env
      then message env = None \<and> errors env = None \<and> employee_id env = None \<and>
           employee env = None \<and> employees env = None \<and> departments env = None \<and>
           statistics env \<noteq> None
      else message env \<noteq> None \<and> payload_absent env)"

text \<open>The result of a method is what its \<open>try\<close> block returned, or the failure dictionary
  made from the exception the block raised.\<close>

definition converts :: "string \<Rightarrow> (exn + envelope) \<times> db \<Rightarrow> envelope \<times> db \<Rightarrow> bool" where
  "converts what tried r =
     (case fst tried of
        Inl e \<Rightarrow> fst r = result False (what @ '': '' @ str_exn e)
      | Inr env \<Rightarrow> fst r = env)"

text \<open>A failure of the engine during a computation makes the computation raise.\<close>

definition raises_when_engine_fails :: "db \<Rightarrow> (exn + 'a) \<times> db \<Rightarrow> bool" where
  "raises_when_engine_fails d tried =
     (engine_failed d (snd tried) \<longrightarrow> (case fst tried of Inl e \<Rightarrow> True | Inr a \<Rightarrow> False))"

text \<open>The outcomes consumed by a computation are a prefix of the coming outcomes, free of
  failures when the computation returns.\<close>

definition clean :: "db \<Rightarrow> (exn + 'a) \<times> db \<Rightarrow> bool" where
  "clean d r =
     (\<exists>pre. faults d = pre @ faults (snd r) \<and>
            ((\<exists>a. fst r = Inr a) \<longrightarrow> (\<forall>f \<in> set pre. f = None)))"

text \<open>A store whose engine fails on the next statement.\<close>

definition failing_db :: db where
  "failing_db =
     \<lparr>table = [\<lparr>col_id = 4, col_fname = Some ''Amy'', col_lname = Some ''Garcia'',
                 col_department = Some ''HR'', col_phNumber = Some ''555-0108''\<rparr>],
      faults = [Some ''disk I/O error'']\<rparr>"

text \<open>A store in which the first name of one row is \<open>NULL\<close>.\<close>

definition null_name_db :: db where
  "null_name_db =
     \<lparr>table = [\<lparr>col_id = 1, col_fname = None, col_lname = Some ''Doe'',
                 col_department = Some ''Engineering'', col_phNumber = Some ''555-0101''\<rparr>,
                \<lparr>col_id = 2, col_fname = Some ''Anna'', col_lname = Some ''Lee'',
                 col_department = Some ''Engineering'', col_phNumber = Some ''555-0102''\<rparr>],
      faults = []\<rparr>"

section \<open>The storage engine when it does not fail\<close>

lemma statement_ok:
  "faults d = [] \<Longrightarrow>
   statement what run d = (Inr (fst (run (table d))), d\<lparr>table := snd (run (table d))\<rparr>)"
  by (simp add: statement_def connect_def split: prod.splits)

lemma find_id_None:
  "(find (\<lambda>r. col_id r = eid) t = None) = (\<not> (\<exists>r \<in> set t. col_id r = eid))"
  by (induction t) auto

lemma get_by_id_ok:
  "faults d = [] \<Longrightarrow>
   dal_get_employee_by_id eid d = (Inr (find (\<lambda>r. col_id r = eid) (table d)), d)"
  by (simp add: dal_get_employee_by_id_def statement_ok)

section \<open>Validation\<close>

text \<open>
  C10. The boolean check and the list of validation errors agree on every employee:
  \<open>is_valid\<close> holds exactly when \<open>get_validation_errors\<close> is empty. This covers records
  with untrimmed or blank fields, and records built by the constructor from any
  arguments, \<open>None\<close> included.
\<close>

theorem is_valid_iff_no_validation_errors:
  "is_valid e = (get_validation_errors e = []) \<and>
   is_valid (new_Employee i fn ln dp ph) =
     (get_validation_errors (new_Employee i fn ln dp ph) = [])"
  by (simp add: is_valid_def get_validation_errors_def)

section \<open>Update without fields\<close>

text \<open>
  C1, as the code has it. The existence check comes first: with the engine working, an
  update request without fields fails with \<open>No fields provided for update\<close> when a row
  with the id exists, and with \<open>Employee with ID ... not found\<close> when none does. The
  store is unchanged in both cases.
\<close>

theorem update_without_fields:
  assumes "\<not> has_updates u" and "faults d = []"
  shows "update_employee eid u d =
           (if \<exists>r \<in> set (table d). col_id r = eid
            then result False ''No fields provided for update''
            else result False (''Employee with ID '' @ str_int eid @ '' not found''), d)"
proof (cases "find (\<lambda>r. col_id r = eid) (table d)")
  case None
  then have "\<not> (\<exists>r \<in> set (table d). col_id r = eid)"
    by (simp add: find_id_None)
  with None assms show ?thesis
    by (simp add: update_employee_def update_employee_try_def except_Exception_def get_by_id_ok)
next
  case (Some r)
  then have "\<exists>r \<in> set (table d). col_id r = eid"
    using find_id_None [of eid "table d"] by simp
  with Some assms show ?thesis
    by (simp add: update_employee_def update_employee_try_def except_Exception_def get_by_id_ok)
qed

theorem update_without_fields_witness:
  "\<not> has_updates (new_EmployeeUpdateData None (Some '''') None None) \<and>
   update_employee 4 (new_EmployeeUpdateData None (Some '''') None None)
     \<lparr>table = [\<lparr>col_id = 4, col_fname = Some ''Amy'', col_lname = Some ''Garcia'',
                 col_department = Some ''HR'', col_phNumber = Some ''555-0108''\<rparr>],
      faults = []\<rparr>
   = (result False ''No fields provided for update'',
      \<lparr>table = [\<lparr>col_id = 4, col_fname = Some ''Amy'', col_lname = Some ''Garcia'',
                  col_department = Some ''HR'', col_phNumber = Some ''555-0108''\<rparr>],
       faults = []\<rparr>)"
proof -
  have h: "\<not> has_updates (new_EmployeeUpdateData None (Some '''') None None)"
    by (simp add: has_updates_def new_EmployeeUpdateData_def strip_if_given_def truthy_def)
  show ?thesis
    using h update_without_fields [OF h, of
        "\<lparr>table = [\<lparr>col_id = 4, col_fname = Some ''Amy'', col_lname = Some ''Garcia'',
                     col_department = Some ''HR'', col_phNumber = Some ''555-0108''\<rparr>],
          faults = []\<rparr>" 4]
    by simp
qed

text \<open>The claim as it is written fails where the id is absent: on the empty table the
  same request is answered with \<open>not found\<close>.\<close>

theorem update_without_fields_absent_id_counterexample:
  "fst (update_employee 1 (new_EmployeeUpdateData None None None None)
          \<lparr>table = [], faults = []\<rparr>)
     = result False ''Employee with ID 1 not found'' \<and>
   result False ''Employee with ID 1 not found'' \<noteq> result False ''No fields provided for update''"
  by code_simp

section \<open>Blank input to an update request\<close>

text \<open>
  C6 asks that blank input never becomes an empty replacement. The initialiser tests the
  argument before it strips it, so an argument of three spaces passes the test and is
  stripped to the empty string: the field is present and empty, \<open>has_updates\<close> holds, and
  the update writes the empty string over the stored first name.
\<close>

theorem whitespace_only_update_overwrites:
  "new_EmployeeUpdateData (Some ''   '') None None None =
     \<lparr>new_fname = Some '''', new_lname = None, new_department = None, new_ph_number = None\<rparr> \<and>
   has_updates (new_EmployeeUpdateData (Some ''   '') None None None) \<and>
   update_employee 4 (new_EmployeeUpdateData (Some ''   '') None None None)
     \<lparr>table = [\<lparr>col_id = 4, col_fname = Some ''Amy'', col_lname = Some ''Garcia'',
                 col_department = Some ''HR'', col_phNumber = Some ''555-0108''\<rparr>],
      faults = []\<rparr>
   = (result True ''Employee 4 updated successfully'',
      \<lparr>table = [\<lparr>col_id = 4, col_fname = Some '''', col_lname = Some ''Garcia'',
                  col_department = Some ''HR'', col_phNumber = Some ''555-0108''\<rparr>],
       faults = []\<rparr>)"
  by code_simp

text \<open>In particular the request built from three spaces has a first name, the empty
  string, and counts as an update.\<close>

theorem whitespace_only_update_overwrites_witness:
  "new_fname (new_EmployeeUpdateData (Some ''   '') None None None) = Some [] \<and>
   has_updates (new_EmployeeUpdateData (Some ''   '') None None None) \<and>
   success (fst (update_employee 4 (new_EmployeeUpdateData (Some ''   '') None None None)
     \<lparr>table = [\<lparr>col_id = 4, col_fname = Some ''Amy'', col_lname = Some ''Garcia'',
                 col_department = Some ''HR'', col_phNumber = Some ''555-0108''\<rparr>],
      faults = []\<rparr>))"
proof -
  note t = whitespace_only_update_overwrites
  from t have a: "new_EmployeeUpdateData (Some ''   '') None None None =
     \<lparr>new_fname = Some [], new_lname = None, new_department = None, new_ph_number = None\<rparr>"
    by (elim conjE)
  from t have b: "has_updates (new_EmployeeUpdateData (Some ''   '') None None None)"
    by (elim conjE)
  from t have c: "fst (update_employee 4 (new_EmployeeUpdateData (Some ''   '') None None None)
     \<lparr>table = [\<lparr>col_id = 4, col_fname = Some ''Amy'', col_lname = Some ''Garcia'',
                 col_department = Some ''HR'', col_phNumber = Some ''555-0108''\<rparr>],
      faults = []\<rparr>) = result True ''Employee 4 updated successfully''"
    by (elim conjE) (simp only: fst_conv)
  from arg_cong [OF a, of new_fname]
  have a': "new_fname (new_EmployeeUpdateData (Some ''   '') None None None) = Some []"
    by simp
  have "success (result True ''Employee 4 updated successfully'')"
    by (simp add: result_def)
  with c have c': "success (fst (update_employee 4
     (new_EmployeeUpdateData (Some ''   '') None None None)
     \<lparr>table = [\<lparr>col_id = 4, col_fname = Some ''Amy'', col_lname = Some ''Garcia'',
                 col_department = Some ''HR'', col_phNumber = Some ''555-0108''\<rparr>],
      faults = []\<rparr>))"
    by (simp only:)
  from a' b c' show ?thesis by (intro conjI)
qed

section \<open>What create_employee stores\<close>

text \<open>
  C2 asks that Create stores the trimmed inputs and compares the trimmed phone number.
  The method validates the trimmed copy but compares and inserts its arguments as given:
  with \<open>555-0108\<close> stored, a call with that number between spaces is not taken for a
  duplicate, and the new row holds the untrimmed first name and phone number.
\<close>

theorem create_stores_untrimmed:
  "create_employee '' Ann '' ''Lee'' ''Sales'' '' 555-0108 ''
     \<lparr>table = [\<lparr>col_id = 4, col_fname = Some ''Amy'', col_lname = Some ''Garcia'',
                 col_department = Some ''HR'', col_phNumber = Some ''555-0108''\<rparr>],
      faults = []\<rparr>
   = ((result True ''Employee created successfully with ID: 5'')\<lparr>employee_id := Some 5\<rparr>,
      \<lparr>table = [\<lparr>col_id = 4, col_fname = Some ''Amy'', col_lname = Some ''Garcia'',
                  col_department = Some ''HR'', col_phNumber = Some ''555-0108''\<rparr>,
                 \<lparr>col_id = 5, col_fname = Some '' Ann '', col_lname = Some ''Lee'',
                  col_department = Some ''Sales'', col_phNumber = Some '' 555-0108 ''\<rparr>],
       faults = []\<rparr>) \<and>
   strip '' 555-0108 '' = ''555-0108'' \<and> strip '' Ann '' = ''Ann''"
  by code_simp

text \<open>In particular the call succeeds, although the trimmed phone number is the stored
  one.\<close>

theorem create_stores_untrimmed_witness:
  "success (fst (create_employee '' Ann '' ''Lee'' ''Sales'' '' 555-0108 ''
     \<lparr>table = [\<lparr>col_id = 4, col_fname = Some ''Amy'', col_lname = Some ''Garcia'',
                 col_department = Some ''HR'', col_phNumber = Some ''555-0108''\<rparr>],
      faults = []\<rparr>)) \<and>
   strip '' 555-0108 '' = ''555-0108''"
proof -
  note t = create_stores_untrimmed
  from t have c: "fst (create_employee '' Ann '' ''Lee'' ''Sales'' '' 555-0108 ''
     \<lparr>table = [\<lparr>col_id = 4, col_fname = Some ''Amy'', col_lname = Some ''Garcia'',
                 col_department = Some ''HR'', col_phNumber = Some ''555-0108''\<rparr>],
      faults = []\<rparr>) =
     (result True ''Employee created successfully with ID: 5'')\<lparr>employee_id := Some 5\<rparr>"
    by (elim conjE) (simp only: fst_conv)
  from t have s: "strip '' 555-0108 '' = ''555-0108''"
    by (elim conjE)
  have "success ((result True ''Employee created successfully with ID: 5'')
                   \<lparr>employee_id := Some 5\<rparr>)"
    by (simp add: result_def)
  with c have c': "success (fst (create_employee '' Ann '' ''Lee'' ''Sales'' '' 555-0108 ''
     \<lparr>table = [\<lparr>col_id = 4, col_fname = Some ''Amy'', col_lname = Some ''Garcia'',
                 col_department = Some ''HR'', col_phNumber = Some ''555-0108''\<rparr>],
      faults = []\<rparr>))"
    by (simp only:)
  from c' s show ?thesis by (intro conjI)
qed

section \<open>The list of departments\<close>

lemma get_departments_ok:
  "faults d = [] \<Longrightarrow>
   dal_get_departments d = (Inr (sort (remdups (List.map_filter col_department (table d)))), d)"
  by (simp add: dal_get_departments_def statement_ok)

lemma set_map_filter_department:
  "set (List.map_filter col_department t) = {dp. \<exists>r \<in> set t. col_department r = Some dp}"
  by (induction t) (auto simp: List.map_filter_simps split: option.splits)

text \<open>
  C9, as the code has it. With the engine working, the layer's \<open>get_departments\<close> returns
  the department values of the rows that are not \<open>NULL\<close>, each once, in ascending order.
  The empty string is a value like any other and is listed when a row holds it.
\<close>

theorem distinct_departments_sorted:
  assumes "faults d = []"
  shows "\<exists>ds. dal_get_departments d = (Inr ds, d) \<and> sorted ds \<and> distinct ds \<and>
              set ds = {dp. \<exists>r \<in> set (table d). col_department r = Some dp}"
  using assms by (simp add: get_departments_ok set_map_filter_department)

theorem distinct_departments_sorted_witness:
  "dal_get_departments
     \<lparr>table = [\<lparr>col_id = 1, col_fname = Some ''Amy'', col_lname = Some ''Garcia'',
                 col_department = Some ''HR'', col_phNumber = Some ''555-0108''\<rparr>,
                \<lparr>col_id = 2, col_fname = Some ''Tom'', col_lname = Some ''Wilson'',
                 col_department = Some ''Engineering'', col_phNumber = Some ''555-0107''\<rparr>,
                \<lparr>col_id = 3, col_fname = Some ''Sarah'', col_lname = Some ''Williams'',
                 col_department = Some ''HR'', col_phNumber = Some ''555-0104''\<rparr>],
      faults = []\<rparr>
   = (Inr [''Engineering'', ''HR''],
      \<lparr>table = [\<lparr>col_id = 1, col_fname = Some ''Amy'', col_lname = Some ''Garcia'',
                 col_department = Some ''HR'', col_phNumber = Some ''555-0108''\<rparr>,
                \<lparr>col_id = 2, col_fname = Some ''Tom'', col_lname = Some ''Wilson'',
                 col_department = Some ''Engineering'', col_phNumber = Some ''555-0107''\<rparr>,
                \<lparr>col_id = 3, col_fname = Some ''Sarah'', col_lname = Some ''Williams'',
                 col_department = Some ''HR'', col_phNumber = Some ''555-0104''\<rparr>],
      faults = []\<rparr>) \<and>
   sorted [''Engineering'', ''HR''] \<and> distinct [''Engineering'', ''HR'']"
proof -
  let ?d = "\<lparr>table = [\<lparr>col_id = 1, col_fname = Some ''Amy'', col_lname = Some ''Garcia'',
                 col_department = Some ''HR'', col_phNumber = Some ''555-0108''\<rparr>,
                \<lparr>col_id = 2, col_fname = Some ''Tom'', col_lname = Some ''Wilson'',
                 col_department = Some ''Engineering'', col_phNumber = Some ''555-0107''\<rparr>,
                \<lparr>col_id = 3, col_fname = Some ''Sarah'', col_lname = Some ''Williams'',
                 col_department = Some ''HR'', col_phNumber = Some ''555-0104''\<rparr>],
      faults = []\<rparr>"
  have h: "faults ?d = []" by simp
  have e: "dal_get_departments ?d = (Inr [''Engineering'', ''HR''], ?d)" by code_simp
  from distinct_departments_sorted [OF h] obtain ds where
    ds: "dal_get_departments ?d = (Inr ds, ?d)" and p: "sorted ds" "distinct ds"
    by blast
  from ds e have "ds = [''Engineering'', ''HR'']" by simp
  with e p show ?thesis by (simp only: simp_thms)
qed

text \<open>The claim as it is written fails on a blank department: of a row with the empty
  string and a row with \<open>NULL\<close>, the first is listed and the second is not.\<close>

theorem blank_department_listed_counterexample:
  "fst (dal_get_departments
     \<lparr>table = [\<lparr>col_id = 1, col_fname = Some ''Amy'', col_lname = Some ''Garcia'',
                 col_department = Some '''', col_phNumber = Some ''555-0108''\<rparr>,
                \<lparr>col_id = 2, col_fname = Some ''Tom'', col_lname = Some ''Wilson'',
                 col_department = None, col_phNumber = Some ''555-0107''\<rparr>],
      faults = []\<rparr>) = Inr ['''']"
  by code_simp

section \<open>Creating an employee\<close>

lemma get_all_ok:
  "faults d = [] \<Longrightarrow> dal_get_all_employees d = (Inr (order_by_id (table d)), d)"
  by (simp add: dal_get_all_employees_def statement_ok)

lemma set_order_by_id [simp]: "set (order_by_id t) = set t"
  by (simp add: order_by_id_def)

lemma dal_create_ok:
  "faults d = [] \<Longrightarrow>
   dal_create_employee fn ln dp ph d =
     (Inr (next_rowid (table d)),
      d\<lparr>table := table d @ [\<lparr>col_id = next_rowid (table d), col_fname = Some fn,
                              col_lname = Some ln, col_department = Some dp,
                              col_phNumber = Some ph\<rparr>]\<rparr>)"
  by (simp add: dal_create_employee_def statement_ok Let_def)

lemma next_rowid_fresh: "r \<in> set t \<Longrightarrow> col_id r < next_rowid t"
proof -
  assume r: "r \<in> set t"
  then have "col_id r \<le> Max (set (map col_id t))"
    by (intro Max_ge) auto
  with r show ?thesis
    by (auto simp: next_rowid_def)
qed

lemma errors_missing_fields:
  "get_validation_errors (new_Employee None (Some fn) (Some ln) (Some dp) (Some ph)) =
     missing_fields fn ln dp ph"
  by (simp add: get_validation_errors_def new_Employee_def clean_string_def missing_fields_def
      truthy_def)

text \<open>
  C4. Create validates the employee it builds from its arguments. If that employee is
  invalid, the call fails with \<open>Validation failed\<close> and the list of errors holds one
  message per blank field, in the order first name, last name, department, phone number;
  the store is not touched. If it is valid and, with the engine working, some stored row
  has the phone number given, the call fails with a message that names the number.
  Otherwise the row is inserted, and the success dictionary carries the id the engine
  assigned, which no row had before.
\<close>

theorem create_employee_outcomes:
  "(\<not> is_valid (new_Employee None (Some fn) (Some ln) (Some dp) (Some ph)) \<longrightarrow>
      create_employee fn ln dp ph d =
        ((result False ''Validation failed'')\<lparr>errors := Some (missing_fields fn ln dp ph)\<rparr>, d)) \<and>
   (is_valid (new_Employee None (Some fn) (Some ln) (Some dp) (Some ph)) \<and> faults d = [] \<and>
    (\<exists>r \<in> set (table d). col_phNumber r = Some ph) \<longrightarrow>
      create_employee fn ln dp ph d =
        (result False (''Employee with phone number '' @ ph @ '' already exists''), d)) \<and>
   (is_valid (new_Employee None (Some fn) (Some ln) (Some dp) (Some ph)) \<and> faults d = [] \<and>
    \<not> (\<exists>r \<in> set (table d). col_phNumber r = Some ph) \<longrightarrow>
      create_employee fn ln dp ph d =
        ((result True (''Employee created successfully with ID: '' @ str_int (next_rowid (table d))))
           \<lparr>employee_id := Some (next_rowid (table d))\<rparr>,
         d\<lparr>table := table d @ [\<lparr>col_id = next_rowid (table d), col_fname = Some fn,
                                 col_lname = Some ln, col_department = Some dp,
                                 col_phNumber = Some ph\<rparr>]\<rparr>) \<and>
      (\<forall>r \<in> set (table d). col_id r \<noteq> next_rowid (table d)))"
proof (intro conjI impI)
  assume "\<not> is_valid (new_Employee None (Some fn) (Some ln) (Some dp) (Some ph))"
  then show "create_employee fn ln dp ph d =
        ((result False ''Validation failed'')\<lparr>errors := Some (missing_fields fn ln dp ph)\<rparr>, d)"
    by (simp add: create_employee_def create_employee_try_def except_Exception_def
        errors_missing_fields)
next
  assume "is_valid (new_Employee None (Some fn) (Some ln) (Some dp) (Some ph)) \<and> faults d = [] \<and>
    (\<exists>r \<in> set (table d). col_phNumber r = Some ph)"
  then show "create_employee fn ln dp ph d =
        (result False (''Employee with phone number '' @ ph @ '' already exists''), d)"
    by (simp add: create_employee_def create_employee_try_def except_Exception_def get_all_ok)
next
  assume a: "is_valid (new_Employee None (Some fn) (Some ln) (Some dp) (Some ph)) \<and> faults d = [] \<and>
    \<not> (\<exists>r \<in> set (table d). col_phNumber r = Some ph)"
  then show "create_employee fn ln dp ph d =
        ((result True (''Employee created successfully with ID: '' @ str_int (next_rowid (table d))))
           \<lparr>employee_id := Some (next_rowid (table d))\<rparr>,
         d\<lparr>table := table d @ [\<lparr>col_id = next_rowid (table d), col_fname = Some fn,
                                 col_lname = Some ln, col_department = Some dp,
                                 col_phNumber = Some ph\<rparr>]\<rparr>)"
    by (simp add: create_employee_def create_employee_try_def except_Exception_def get_all_ok
        dal_create_ok)
next
  show "\<forall>r \<in> set (table d). col_id r \<noteq> next_rowid (table d)"
    using next_rowid_fresh [of _ "table d"] by fastforce
qed

theorem create_employee_outcomes_witness:
  "create_employee [] ''Lee'' ''  '' ''555-0199'' one_row_db =
     ((result False ''Validation failed'')
        \<lparr>errors := Some [''First name is required'', ''Department is required'']\<rparr>, one_row_db) \<and>
   create_employee ''Ann'' ''Lee'' ''Sales'' ''555-0108'' one_row_db =
     (result False ''Employee with phone number 555-0108 already exists'', one_row_db) \<and>
   create_employee ''Ann'' ''Lee'' ''Sales'' ''555-0199'' one_row_db =
     ((result True ''Employee created successfully with ID: 5'')\<lparr>employee_id := Some 5\<rparr>,
      one_row_db\<lparr>table := table one_row_db @
         [\<lparr>col_id = 5, col_fname = Some ''Ann'', col_lname = Some ''Lee'',
           col_department = Some ''Sales'', col_phNumber = Some ''555-0199''\<rparr>]\<rparr>)"
proof -
  have v1: "\<not> is_valid (new_Employee None (Some []) (Some ''Lee'') (Some ''  '') (Some ''555-0199''))"
    by code_simp
  have v2: "is_valid (new_Employee None (Some ''Ann'') (Some ''Lee'') (Some ''Sales'') (Some ''555-0108'')) \<and>
            faults one_row_db = [] \<and>
            (\<exists>r \<in> set (table one_row_db). col_phNumber r = Some ''555-0108'')"
    by code_simp
  have v3: "is_valid (new_Employee None (Some ''Ann'') (Some ''Lee'') (Some ''Sales'') (Some ''555-0199'')) \<and>
            faults one_row_db = [] \<and>
            \<not> (\<exists>r \<in> set (table one_row_db). col_phNumber r = Some ''555-0199'')"
    by code_simp
  have m: "missing_fields [] ''Lee'' ''  '' ''555-0199'' =
             [''First name is required'', ''Department is required'']"
    by code_simp
  have n: "next_rowid (table one_row_db) = 5" by code_simp
  have s: "str_int 5 = ''5''" by code_simp
  from create_employee_outcomes [of "[]" "''Lee''" "''  ''" "''555-0199''" one_row_db] v1 m
  have c1: "create_employee [] ''Lee'' ''  '' ''555-0199'' one_row_db =
     ((result False ''Validation failed'')
        \<lparr>errors := Some [''First name is required'', ''Department is required'']\<rparr>, one_row_db)"
    by simp
  from create_employee_outcomes [of "''Ann''" "''Lee''" "''Sales''" "''555-0108''" one_row_db] v2
  have c2: "create_employee ''Ann'' ''Lee'' ''Sales'' ''555-0108'' one_row_db =
     (result False ''Employee with phone number 555-0108 already exists'', one_row_db)"
    by simp
  from create_employee_outcomes [of "''Ann''" "''Lee''" "''Sales''" "''555-0199''" one_row_db] v3 n s
  have c3: "create_employee ''Ann'' ''Lee'' ''Sales'' ''555-0199'' one_row_db =
     ((result True ''Employee created successfully with ID: 5'')\<lparr>employee_id := Some 5\<rparr>,
      one_row_db\<lparr>table := table one_row_db @
         [\<lparr>col_id = 5, col_fname = Some ''Ann'', col_lname = Some ''Lee'',
           col_department = Some ''Sales'', col_phNumber = Some ''555-0199''\<rparr>]\<rparr>)"
    by simp
  from c1 c2 c3 show ?thesis by (intro conjI)
qed

section \<open>Updating the phone number\<close>

lemma dal_update_ok:
  "faults d = [] \<Longrightarrow>
   dal_update_employee eid fn ln dp (Some ph) d =
     (Inr (\<exists>r \<in> set (table d). col_id r = eid),
      d\<lparr>table := map (\<lambda>r. if col_id r = eid then set_columns fn ln dp (Some ph) r else r)
                      (table d)\<rparr>)"
  by (simp add: dal_update_employee_def statement_ok)

lemma find_id_Some:
  "\<exists>r \<in> set t. col_id r = eid \<Longrightarrow> \<exists>r. find (\<lambda>r. col_id r = eid) t = Some r"
  using find_id_None [of eid t] by auto

text \<open>
  C5. Let \<open>r\<close> be a stored row with id \<open>eid\<close>, the engine working, and the phone field of
  the update request present. If a row with another id holds the new number, Update fails
  with a message naming the number and the store is unchanged. If \<open>r\<close> itself holds the
  new number and no row with another id does, Update succeeds: a row is not in conflict
  with itself.
\<close>

theorem update_phone_conflict:
  assumes "faults d = []" and "r \<in> set (table d)" and "col_id r = eid"
    and "new_ph_number u = Some ph"
  shows "((\<exists>r' \<in> set (table d). col_phNumber r' = Some ph \<and> col_id r' \<noteq> eid) \<longrightarrow>
            update_employee eid u d =
              (result False (''Phone number '' @ ph @ '' is already in use by another employee''),
               d)) \<and>
         (col_phNumber r = Some ph \<and>
          \<not> (\<exists>r' \<in> set (table d). col_phNumber r' = Some ph \<and> col_id r' \<noteq> eid) \<longrightarrow>
            update_employee eid u d =
              (result True (''Employee '' @ str_int eid @ '' updated successfully''),
               d\<lparr>table := map (\<lambda>r. if col_id r = eid
                                    then set_columns (new_fname u) (new_lname u)
                                           (new_department u) (new_ph_number u) r
                                    else r) (table d)\<rparr>))"
proof -
  from assms(2,3) obtain r0 where f: "find (\<lambda>r. col_id r = eid) (table d) = Some r0"
    using find_id_Some [of "table d" eid] by blast
  from assms(4) have u: "has_updates u"
    by (simp add: has_updates_def)
  from assms(2,3) have ex: "\<exists>r \<in> set (table d). col_id r = eid"
    by blast
  show ?thesis
  proof (intro conjI impI)
    assume "\<exists>r' \<in> set (table d). col_phNumber r' = Some ph \<and> col_id r' \<noteq> eid"
    with assms(1,4) f u
    show "update_employee eid u d =
            (result False (''Phone number '' @ ph @ '' is already in use by another employee''), d)"
      by (simp add: update_employee_def update_employee_try_def except_Exception_def
          get_by_id_ok get_all_ok)
  next
    assume "col_phNumber r = Some ph \<and>
            \<not> (\<exists>r' \<in> set (table d). col_phNumber r' = Some ph \<and> col_id r' \<noteq> eid)"
    with assms(1,4) f u ex
    show "update_employee eid u d =
            (result True (''Employee '' @ str_int eid @ '' updated successfully''),
             d\<lparr>table := map (\<lambda>r. if col_id r = eid
                                  then set_columns (new_fname u) (new_lname u)
                                         (new_department u) (new_ph_number u) r
                                  else r) (table d)\<rparr>)"
      by (auto simp: update_employee_def update_employee_try_def except_Exception_def
          get_by_id_ok get_all_ok perform_update_def dal_update_ok)
  qed
qed

theorem update_phone_conflict_witness:
  "update_employee 4 (new_EmployeeUpdateData None None None (Some ''555-0107'')) two_row_db =
     (result False ''Phone number 555-0107 is already in use by another employee'', two_row_db) \<and>
   update_employee 4 (new_EmployeeUpdateData None None (Some ''Finance'') (Some ''555-0108''))
     two_row_db =
     (result True ''Employee 4 updated successfully'',
      \<lparr>table = [\<lparr>col_id = 4, col_fname = Some ''Amy'', col_lname = Some ''Garcia'',
                 col_department = Some ''Finance'', col_phNumber = Some ''555-0108''\<rparr>,
                \<lparr>col_id = 7, col_fname = Some ''Tom'', col_lname = Some ''Wilson'',
                 col_department = Some ''Engineering'', col_phNumber = Some ''555-0107''\<rparr>],
      faults = []\<rparr>)"
proof -
  let ?r = "\<lparr>col_id = 4, col_fname = Some ''Amy'', col_lname = Some ''Garcia'',
             col_department = Some ''HR'', col_phNumber = Some ''555-0108''\<rparr>"
  let ?u1 = "new_EmployeeUpdateData None None None (Some ''555-0107'')"
  let ?u2 = "new_EmployeeUpdateData None None (Some ''Finance'') (Some ''555-0108'')"
  have h: "faults two_row_db = []" "?r \<in> set (table two_row_db)" "col_id ?r = 4"
    by (simp_all add: two_row_db_def)
  have p1: "new_ph_number ?u1 = Some ''555-0107''" by code_simp
  have p2: "new_ph_number ?u2 = Some ''555-0108''" by code_simp
  have o1: "\<exists>r' \<in> set (table two_row_db). col_phNumber r' = Some ''555-0107'' \<and> col_id r' \<noteq> 4"
    by code_simp
  have o2: "col_phNumber ?r = Some ''555-0108'' \<and>
            \<not> (\<exists>r' \<in> set (table two_row_db). col_phNumber r' = Some ''555-0108'' \<and> col_id r' \<noteq> 4)"
    by code_simp
  have s: "str_int 4 = ''4''" by code_simp
  have t: "d\<lparr>table := map (\<lambda>r. if col_id r = 4
                                    then set_columns (new_fname ?u2) (new_lname ?u2)
                                           (new_department ?u2) (new_ph_number ?u2) r
                                    else r) (table two_row_db)\<rparr> =
           d\<lparr>table := [\<lparr>col_id = 4, col_fname = Some ''Amy'', col_lname = Some ''Garcia'',
                 col_department = Some ''Finance'', col_phNumber = Some ''555-0108''\<rparr>,
                \<lparr>col_id = 7, col_fname = Some ''Tom'', col_lname = Some ''Wilson'',
                 col_department = Some ''Engineering'', col_phNumber = Some ''555-0107''\<rparr>]\<rparr>" for d :: db
    by code_simp
  from update_phone_conflict [OF h p1] o1
  have c1: "update_employee 4 ?u1 two_row_db =
     (result False ''Phone number 555-0107 is already in use by another employee'', two_row_db)"
    by simp
  from update_phone_conflict [OF h p2] o2 s
  have c2: "update_employee 4 ?u2 two_row_db =
     (result True ''Employee 4 updated successfully'',
      two_row_db\<lparr>table := map (\<lambda>r. if col_id r = 4
                                    then set_columns (new_fname ?u2) (new_lname ?u2)
                                           (new_department ?u2) (new_ph_number ?u2) r
                                    else r) (table two_row_db)\<rparr>)"
    by simp
  from c1 c2 t [of two_row_db] show ?thesis by (simp add: two_row_db_def)
qed

section \<open>Search without criteria\<close>

lemma ids_of_from_dict: "ids_of (map from_dict rs) = map col_id rs"
  by (induction rs) (simp_all add: ids_of_def List.map_filter_simps from_dict_def new_Employee_def)

lemma sorted_order_by_id: "sorted (map col_id (order_by_id t))"
  by (simp add: order_by_id_def)

lemma get_all_employees_cases:
  "get_all_employees d =
     (case faults d of
        Some cause # fs \<Rightarrow>
          (result False (''Failed to retrieve employees: Failed to get all employees: '' @ cause),
           d\<lparr>faults := fs\<rparr>)
      | None # fs \<Rightarrow>
          (found ''Retrieved '' '' employees'' (map from_dict (order_by_id (table d))),
           d\<lparr>faults := fs\<rparr>)
      | [] \<Rightarrow> (found ''Retrieved '' '' employees'' (map from_dict (order_by_id (table d))), d))"
  by (simp add: get_all_employees_def get_all_employees_try_def except_Exception_def
      dal_get_all_employees_def statement_def connect_def split: list.splits option.splits)

text \<open>
  C7. For criteria without term and without department: whenever GetAll succeeds, as it
  does on every store content when the engine works, Search succeeds with exactly the list
  of records GetAll returns. That list is in ascending order of id, every record in it
  has an id, and its ids are those of the rows of the table.
\<close>

theorem search_empty_is_get_all:
  assumes "is_empty c"
  shows "(faults d = [] \<longrightarrow> success (fst (get_all_employees d))) \<and>
         (success (fst (get_all_employees d)) \<longrightarrow>
            (\<exists>es. employees (fst (get_all_employees d)) = Some es \<and>
                  success (fst (search_employees c d)) \<and>
                  employees (fst (search_employees c d)) = Some es \<and>
                  sorted (ids_of es) \<and> length (ids_of es) = length es \<and>
                  set (ids_of es) = col_id ` set (table d)))"
proof -
  have f: "success (found a b es)" "employees (found a b es) = Some es" for a b es
    by (simp_all add: found_def result_def)
  have nf: "\<not> success (result False m)" for m
    by (simp add: result_def)
  show ?thesis
    using assms
    by (simp add: get_all_employees_cases search_employees_def search_employees_try_def
        except_Exception_def f nf ids_of_from_dict sorted_order_by_id
        split: list.splits option.splits)
qed

theorem search_empty_is_get_all_witness:
  "is_empty (new_EmployeeSearchCriteria ''  '' []) \<and>
   employees (fst (get_all_employees fixture_db)) = Some fixture_employees \<and>
   employees (fst (search_employees (new_EmployeeSearchCriteria ''  '' []) fixture_db)) =
     Some fixture_employees \<and>
   ids_of fixture_employees = [1, 2, 3]"
proof -
  let ?c = "new_EmployeeSearchCriteria ''  '' []"
  have h: "is_empty ?c" by code_simp
  have g: "employees (fst (get_all_employees fixture_db)) = Some fixture_employees"
    by code_simp
  have i: "ids_of fixture_employees = [1, 2, 3]" by code_simp
  have "faults fixture_db = []" by (simp add: fixture_db_def)
  with search_empty_is_get_all [OF h, of fixture_db]
  obtain es where "employees (fst (get_all_employees fixture_db)) = Some es"
    and "employees (fst (search_employees ?c fixture_db)) = Some es"
    by blast
  with g have "employees (fst (search_employees ?c fixture_db)) = Some fixture_employees"
    by simp
  with h g i show ?thesis by (intro conjI)
qed

section \<open>Search by term and department\<close>

lemma str_in_sublist: "str_in needle hay = sublist needle hay"
  by (induction hay) (simp_all add: sublist_Cons_right)

lemma row_matches_readable: "\<not> unreadable c r \<Longrightarrow> row_matches c r = Inr (wanted c r)"
  by (auto simp: unreadable_def row_matches_def name_matches_def wanted_def contains_ci_def
      str_in_sublist split: option.splits)

lemma row_matches_unreadable: "unreadable c r \<Longrightarrow> row_matches c r = Inl NoneType_lower"
  by (auto simp: unreadable_def row_matches_def name_matches_def contains_ci_def
      str_in_sublist split: option.splits)

lemma select_matching_readable:
  "\<forall>r \<in> set rs. \<not> unreadable c r \<Longrightarrow>
   select_matching c rs = Inr (map from_dict (filter (wanted c) rs))"
  by (induction rs) (simp_all add: row_matches_readable)

lemma select_matching_unreadable:
  "\<exists>r \<in> set rs. unreadable c r \<Longrightarrow> select_matching c rs = Inl NoneType_lower"
proof (induction rs)
  case Nil
  then show ?case by simp
next
  case (Cons r rs)
  show ?case
  proof (cases "unreadable c r")
    case True
    then show ?thesis by (simp add: row_matches_unreadable)
  next
    case False
    with Cons.prems have "\<exists>r \<in> set rs. unreadable c r" by simp
    with Cons.IH False show ?thesis by (simp add: row_matches_readable)
  qed
qed

text \<open>
  Where every name the branch reads is present, the search for a term and a department
  returns what is asked. With the engine working and no unreadable row in the store (a
  \<open>NULL\<close> first name, or a \<open>NULL\<close> last name beside a first name that does not
  contain the term), it succeeds and returns, in ascending order of id, exactly the
  records of the rows whose department equals the filter and whose first or last name
  contains the term without regard to case; the message reports their number. On an
  unreadable row the branch raises.
\<close>

lemma search_term_and_department:
  assumes "has_search_term c" and "has_department_filter c" and "faults d = []"
  shows "search_employees c d =
           (if \<exists>r \<in> set (table d). unreadable c r
            then result False (''Failed to search employees: '' @ str_exn NoneType_lower)
            else (result True (''Found '' @
                    str_nat (length (filter (wanted c) (order_by_id (table d)))) @
                    '' matching employees''))
                   \<lparr>employees := Some (map from_dict (filter (wanted c) (order_by_id (table d))))\<rparr>,
            d)"
proof (cases "\<exists>r \<in> set (table d). unreadable c r")
  case True
  then have "select_matching c (order_by_id (table d)) = Inl NoneType_lower"
    by (intro select_matching_unreadable) simp
  with True assms show ?thesis
    by (simp add: search_employees_def search_employees_try_def except_Exception_def
        is_empty_def get_all_ok)
next
  case False
  then have "select_matching c (order_by_id (table d)) =
               Inr (map from_dict (filter (wanted c) (order_by_id (table d))))"
    by (intro select_matching_readable) simp
  with False assms show ?thesis
    by (simp add: search_employees_def search_employees_try_def except_Exception_def
        is_empty_def get_all_ok found_def)
qed

lemma search_term_and_department_example:
  "search_employees (new_EmployeeSearchCriteria ''an'' ''Engineering'') fixture_db =
     ((result True ''Found 1 matching employees'')
        \<lparr>employees := Some [\<lparr>emp_id = Some 2, fname = ''Anna'', lname = ''Lee'',
                              department = ''Engineering'', ph_number = ''555-0102''\<rparr>]\<rparr>,
      fixture_db)"
proof -
  let ?c = "new_EmployeeSearchCriteria ''an'' ''Engineering''"
  have h: "has_search_term ?c" "has_department_filter ?c" "faults fixture_db = []"
    by code_simp+
  have n: "\<not> (\<exists>r \<in> set (table fixture_db). unreadable ?c r)" by code_simp
  have w: "map from_dict (filter (wanted ?c) (order_by_id (table fixture_db))) =
             [\<lparr>emp_id = Some 2, fname = ''Anna'', lname = ''Lee'',
               department = ''Engineering'', ph_number = ''555-0102''\<rparr>]"
    by code_simp
  have l: "str_nat (length (filter (wanted ?c) (order_by_id (table fixture_db)))) = ''1''"
    by code_simp
  from search_term_and_department [OF h] n w l show ?thesis
    by simp
qed

text \<open>
  C8 asks that the search for a term and a department succeeds on every store content
  and returns the matching records. On a store with a \<open>NULL\<close> first name the branch
  calls \<open>.lower()\<close> on \<open>None\<close>, and the exception ends the search with a failure. The
  row of Anna Lee in Engineering is the one record asked for. On the same store the
  search by the term alone, the search by the department alone and GetAll succeed.
\<close>

theorem search_null_name_fails:
  "fst (search_employees (new_EmployeeSearchCriteria ''an'' ''Engineering'') null_name_db) =
     result False (''Failed to search employees: '' @ str_exn NoneType_lower) \<and>
   map from_dict (filter (wanted (new_EmployeeSearchCriteria ''an'' ''Engineering''))
     (order_by_id (table null_name_db))) =
     [\<lparr>emp_id = Some 2, fname = ''Anna'', lname = ''Lee'', department = ''Engineering'',
       ph_number = ''555-0102''\<rparr>] \<and>
   fst (search_employees (new_EmployeeSearchCriteria ''an'' []) null_name_db) =
     (result True ''Found 1 matching employees'')
       \<lparr>employees := Some [\<lparr>emp_id = Some 2, fname = ''Anna'', lname = ''Lee'',
                             department = ''Engineering'', ph_number = ''555-0102''\<rparr>]\<rparr> \<and>
   success (fst (search_employees (new_EmployeeSearchCriteria [] ''Engineering'') null_name_db)) \<and>
   success (fst (get_all_employees null_name_db))"
  by code_simp

text \<open>In particular the search does not report success.\<close>

theorem search_null_name_fails_witness:
  "\<not> success (fst (search_employees (new_EmployeeSearchCriteria ''an'' ''Engineering'')
                      null_name_db))"
proof -
  note t = search_null_name_fails
  from t have c: "fst (search_employees (new_EmployeeSearchCriteria ''an'' ''Engineering'')
                         null_name_db) =
     result False (''Failed to search employees: '' @ str_exn NoneType_lower)"
    by (elim conjE)
  show ?thesis
    unfolding c by (simp add: result_def)
qed

section \<open>The result dictionaries of the coordinator\<close>

lemma clean_statement: "clean d (statement what run d)"
proof (cases "faults d")
  case Nil
  then show ?thesis
    by (simp add: clean_def statement_def connect_def split: prod.splits)
next
  case (Cons f fs)
  then have "faults d = [f] @ fs" by simp
  with Cons show ?thesis
    by (cases f) (auto simp: clean_def statement_def connect_def split: prod.splits)
qed

lemma clean_unit: "clean d (x, d)"
  by (simp add: clean_def)

lemma clean_bind:
  assumes "clean d r" and "\<And>a d1. r = (Inr a, d1) \<Longrightarrow> clean d1 (k a d1)"
  shows "clean d (case r of (Inl e, d1) \<Rightarrow> (Inl e, d1) | (Inr a, d1) \<Rightarrow> k a d1)"
proof (cases r)
  case (Pair x d1)
  show ?thesis
  proof (cases x)
    case (Inl e)
    with Pair assms(1) show ?thesis by (simp add: clean_def)
  next
    case (Inr a)
    with Pair assms(1) obtain pre where
      p: "faults d = pre @ faults d1" "\<forall>f \<in> set pre. f = None"
      by (auto simp: clean_def)
    from assms(2) Pair Inr obtain pre' where
      q: "faults d1 = pre' @ faults (snd (k a d1))"
         "(\<exists>b. fst (k a d1) = Inr b) \<longrightarrow> (\<forall>f \<in> set pre'. f = None)"
      by (auto simp: clean_def)
    from p q have "faults d = (pre @ pre') @ faults (snd (k a d1))" by simp
    moreover from p q have "(\<exists>b. fst (k a d1) = Inr b) \<longrightarrow> (\<forall>f \<in> set (pre @ pre'). f = None)"
      by auto
    ultimately have "clean d (k a d1)"
      unfolding clean_def by blast
    with Pair Inr show ?thesis by simp
  qed
qed

lemma clean_raises: "clean d r \<Longrightarrow> raises_when_engine_fails d r"
proof -
  assume "clean d r"
  then obtain pre where p: "faults d = pre @ faults (snd r)"
    "(\<exists>a. fst r = Inr a) \<longrightarrow> (\<forall>f \<in> set pre. f = None)"
    by (auto simp: clean_def)
  from p(1) have "consumed d (snd r) = pre"
    by (simp add: consumed_def)
  with p(2) show ?thesis
    by (auto simp: raises_when_engine_fails_def engine_failed_def split: sum.splits)
qed

lemma clean_dal_search: "clean d (dal_search_employees term d)"
proof (cases "faults d")
  case Nil
  then show ?thesis
    by (simp add: clean_def dal_search_employees_def connect_def Let_def)
next
  case (Cons f fs)
  then have "faults d = [f] @ fs" by simp
  with Cons show ?thesis
    by (cases f) (auto simp: clean_def dal_search_employees_def connect_def Let_def)
qed

lemma clean_dal:
  "clean d (dal_create_employee fn ln dp ph d)"
  "clean d (dal_get_employee_by_id eid d)"
  "clean d (dal_get_all_employees d)"
  "clean d (dal_get_employees_by_department dp d)"
  "clean d (dal_update_employee eid ofn oln odp oph d)"
  "clean d (dal_delete_employee eid d)"
  "clean d (dal_search_employees term d)"
  "clean d (dal_get_employee_count d)"
  "clean d (dal_get_departments d)"
  by (simp_all add: dal_create_employee_def dal_get_employee_by_id_def dal_get_all_employees_def
      dal_get_employees_by_department_def dal_update_employee_def dal_delete_employee_def
      dal_get_employee_count_def dal_get_departments_def
      clean_statement clean_unit clean_dal_search)

lemma clean_create: "clean d (create_employee_try fn ln dp ph d)"
  unfolding create_employee_try_def Let_def
  by (auto intro!: clean_bind clean_unit clean_dal)

lemma clean_get: "clean d (get_employee_try eid d)"
  unfolding get_employee_try_def
  by (auto intro!: clean_bind clean_unit clean_dal split: option.splits)

lemma clean_get_all: "clean d (get_all_employees_try d)"
  unfolding get_all_employees_try_def
  by (auto intro!: clean_bind clean_unit clean_dal)

lemma clean_perform_update: "clean d (perform_update eid u d)"
  unfolding perform_update_def
  by (auto intro!: clean_bind clean_unit clean_dal)

lemma clean_update: "clean d (update_employee_try eid u d)"
  unfolding update_employee_try_def
  by (auto intro!: clean_bind clean_unit clean_dal clean_perform_update split: option.splits)

lemma clean_delete: "clean d (delete_employee_try eid d)"
  unfolding delete_employee_try_def
  by (auto intro!: clean_bind clean_unit clean_dal split: option.splits)

lemma clean_count_departments: "clean d (count_departments depts d)"
  by (induction depts arbitrary: d) (auto intro!: clean_bind clean_unit clean_dal)

lemma clean_statistics: "clean d (get_employee_statistics_try d)"
  unfolding get_employee_statistics_try_def
  by (auto intro!: clean_bind clean_unit clean_dal clean_count_departments)

lemma clean_departments: "clean d (get_departments_try d)"
  unfolding get_departments_try_def
  by (auto intro!: clean_bind clean_unit clean_dal)

lemma clean_search: "\<not> is_empty c \<Longrightarrow> clean d (search_employees_try c d)"
  unfolding search_employees_try_def
  by (auto intro!: clean_bind clean_unit clean_dal split: sum.splits)

lemma converts_except: "converts what tried (except_Exception what tried)"
  by (cases tried) (auto simp: converts_def except_Exception_def split: sum.splits)

lemma except_ok:
  assumes "\<And>env. fst tried = Inr env \<Longrightarrow> P env" and "\<And>m. P (result False m)"
  shows "P (fst (except_Exception what tried))"
  using assms by (cases tried) (auto simp: except_Exception_def split: sum.splits)

lemma result_False_ok: "envelope_ok (result False m)" "statistics_envelope_ok (result False m)"
  by (simp_all add: envelope_ok_def statistics_envelope_ok_def payload_absent_def result_def)

lemma create_envelope_ok: "envelope_ok (fst (create_employee fn ln dp ph d))"
  unfolding create_employee_def
  by (rule except_ok)
     (auto simp: create_employee_try_def Let_def envelope_ok_def payload_absent_def result_def
        split: prod.splits sum.splits if_splits)

lemma get_envelope_ok: "envelope_ok (fst (get_employee eid d))"
  unfolding get_employee_def
  by (rule except_ok)
     (auto simp: get_employee_try_def envelope_ok_def payload_absent_def result_def
        split: prod.splits sum.splits option.splits)

lemma get_all_envelope_ok: "envelope_ok (fst (get_all_employees d))"
  unfolding get_all_employees_def
  by (rule except_ok)
     (auto simp: get_all_employees_try_def envelope_ok_def payload_absent_def result_def
        found_def split: prod.splits sum.splits)

lemma search_envelope_ok: "envelope_ok (fst (search_employees c d))"
  unfolding search_employees_def
  by (rule except_ok)
     (auto simp: search_employees_try_def envelope_ok_def payload_absent_def result_def
        found_def split: prod.splits sum.splits option.splits if_splits)

lemma update_envelope_ok: "envelope_ok (fst (update_employee eid u d))"
  unfolding update_employee_def
  by (rule except_ok)
     (auto simp: update_employee_try_def perform_update_def envelope_ok_def payload_absent_def
        result_def split: prod.splits sum.splits option.splits if_splits)

lemma delete_envelope_ok: "envelope_ok (fst (delete_employee eid d))"
  unfolding delete_employee_def
  by (rule except_ok)
     (auto simp: delete_employee_try_def envelope_ok_def payload_absent_def result_def
        split: prod.splits sum.splits option.splits if_splits)

lemma departments_envelope_ok: "envelope_ok (fst (get_departments d))"
  unfolding get_departments_def
  by (rule except_ok)
     (auto simp: get_departments_try_def envelope_ok_def payload_absent_def result_def
        split: prod.splits sum.splits)

lemma statistics_envelope_holds: "statistics_envelope_ok (fst (get_employee_statistics d))"
  unfolding get_employee_statistics_def
  by (rule except_ok)
     (auto simp: get_employee_statistics_try_def statistics_envelope_ok_def payload_absent_def
        result_def split: prod.splits sum.splits)

text \<open>
  What holds of the result dictionaries of the eight operations, on every store and every
  behaviour of the engine: the dictionary returned has a boolean \<open>success\<close>, has no
  payload when it reports failure, and has a message, the successful dictionary of the
  statistics apart; an exception raised in the \<open>try\<close> block is turned into the failure
  dictionary with the message \<open>Failed to ...: cause\<close>; and, for every operation but the
  search without criteria, a failure of the engine during the operation does raise in
  that block.
\<close>

lemma coordinator_envelopes:
  "envelope_ok (fst (create_employee fn ln dp ph d)) \<and>
   converts ''Failed to create employee'' (create_employee_try fn ln dp ph d)
     (create_employee fn ln dp ph d) \<and>
   raises_when_engine_fails d (create_employee_try fn ln dp ph d) \<and>
   envelope_ok (fst (get_employee eid d)) \<and>
   converts ''Failed to retrieve employee'' (get_employee_try eid d) (get_employee eid d) \<and>
   raises_when_engine_fails d (get_employee_try eid d) \<and>
   envelope_ok (fst (get_all_employees d)) \<and>
   converts ''Failed to retrieve employees'' (get_all_employees_try d) (get_all_employees d) \<and>
   raises_when_engine_fails d (get_all_employees_try d) \<and>
   envelope_ok (fst (search_employees c d)) \<and>
   converts ''Failed to search employees'' (search_employees_try c d) (search_employees c d) \<and>
   (\<not> is_empty c \<longrightarrow> raises_when_engine_fails d (search_employees_try c d)) \<and>
   envelope_ok (fst (update_employee eid u d)) \<and>
   converts ''Failed to update employee'' (update_employee_try eid u d) (update_employee eid u d) \<and>
   raises_when_engine_fails d (update_employee_try eid u d) \<and>
   envelope_ok (fst (delete_employee eid d)) \<and>
   converts ''Failed to delete employee'' (delete_employee_try eid d) (delete_employee eid d) \<and>
   raises_when_engine_fails d (delete_employee_try eid d) \<and>
   statistics_envelope_ok (fst (get_employee_statistics d)) \<and>
   converts ''Failed to get statistics'' (get_employee_statistics_try d)
     (get_employee_statistics d) \<and>
   raises_when_engine_fails d (get_employee_statistics_try d) \<and>
   envelope_ok (fst (get_departments d)) \<and>
   converts ''Failed to get departments'' (get_departments_try d) (get_departments d) \<and>
   raises_when_engine_fails d (get_departments_try d)"
  by (intro conjI impI create_envelope_ok get_envelope_ok get_all_envelope_ok search_envelope_ok update_envelope_ok delete_envelope_ok departments_envelope_ok
      statistics_envelope_holds clean_raises clean_create clean_get clean_get_all clean_search clean_update
      clean_delete clean_statistics clean_departments)
     (simp_all add: create_employee_def get_employee_def get_all_employees_def
        search_employees_def update_employee_def delete_employee_def
        get_employee_statistics_def get_departments_def converts_except)

lemma coordinator_envelopes_example:
  "engine_failed failing_db (snd (get_employee_try 4 failing_db)) \<and>
   (case fst (get_employee_try 4 failing_db) of Inl e \<Rightarrow> True | Inr a \<Rightarrow> False) \<and>
   fst (get_employee 4 failing_db) =
     result False ''Failed to retrieve employee: Failed to get employee by ID: disk I/O error'' \<and>
   payload_absent (fst (get_employee 4 failing_db)) \<and>
   \<not> is_empty (new_EmployeeSearchCriteria ''an'' []) \<and>
   engine_failed failing_db
     (snd (search_employees_try (new_EmployeeSearchCriteria ''an'' []) failing_db)) \<and>
   fst (search_employees (new_EmployeeSearchCriteria ''an'' []) failing_db) =
     result False ''Failed to search employees: Failed to search employees: disk I/O error''"
proof -
  let ?c = "new_EmployeeSearchCriteria ''an'' []"
  note t = coordinator_envelopes [where d = failing_db and eid = 4 and c = ?c and fn = "[]"
      and ln = "[]" and dp = "[]" and ph = "[]" and u = "new_EmployeeUpdateData None None None None"]
  from t have a1: "raises_when_engine_fails failing_db (get_employee_try 4 failing_db)"
    by (elim conjE)
  from t have a2: "converts ''Failed to retrieve employee'' (get_employee_try 4 failing_db)
      (get_employee 4 failing_db)"
    by (elim conjE)
  from t have a3: "envelope_ok (fst (get_employee 4 failing_db))"
    by (elim conjE)
  from t have a4: "\<not> is_empty ?c \<longrightarrow>
      raises_when_engine_fails failing_db (search_employees_try ?c failing_db)"
    by (elim conjE)
  from t have a5: "converts ''Failed to search employees'' (search_employees_try ?c failing_db)
      (search_employees ?c failing_db)"
    by (elim conjE)
  have f1: "engine_failed failing_db (snd (get_employee_try 4 failing_db))" by code_simp
  have f2: "engine_failed failing_db (snd (search_employees_try ?c failing_db))" by code_simp
  have n: "\<not> is_empty ?c" by code_simp
  from a1 f1 have i1: "case fst (get_employee_try 4 failing_db) of Inl e \<Rightarrow> True | Inr a \<Rightarrow> False"
    by (simp add: raises_when_engine_fails_def)
  from a4 n f2 have i2: "case fst (search_employees_try ?c failing_db) of Inl e \<Rightarrow> True | Inr a \<Rightarrow> False"
    by (simp add: raises_when_engine_fails_def)
  have v1: "fst (get_employee_try 4 failing_db) =
              Inl (SqliteError ''Failed to get employee by ID: disk I/O error'')"
    by code_simp
  have v2: "fst (search_employees_try ?c failing_db) =
              Inl (SqliteError ''Failed to search employees: disk I/O error'')"
    by code_simp
  from a2 v1 have r1: "fst (get_employee 4 failing_db) =
     result False ''Failed to retrieve employee: Failed to get employee by ID: disk I/O error''"
    by (simp add: converts_def)
  from a5 v2 have r2: "fst (search_employees ?c failing_db) =
     result False ''Failed to search employees: Failed to search employees: disk I/O error''"
    by (simp add: converts_def)
  from a3 r1 have p: "payload_absent (fst (get_employee 4 failing_db))"
    by (simp add: envelope_ok_def result_def)
  from f1 i1 r1 p n f2 r2 show ?thesis by (intro conjI)
qed

text \<open>
  C3 asks that every operation returns a dictionary with a message, and that an exception
  of the storage engine becomes a dictionary with \<open>success\<close> false. The search without
  criteria calls \<open>get_all_employees\<close> and reads its records only when it succeeded;
  there is no branch for its failure. With the engine failing, GetAll reports the
  failure, and the search reports success with an empty list, where the search by a term
  on the same store reports the failure. The second departure is the dictionary of a
  successful call for the statistics, the only one without a message.
\<close>

theorem empty_search_hides_engine_failure:
  "is_empty (new_EmployeeSearchCriteria [] []) \<and>
   engine_failed failing_db
     (snd (search_employees (new_EmployeeSearchCriteria [] []) failing_db)) \<and>
   fst (get_all_employees failing_db) =
     result False
       ''Failed to retrieve employees: Failed to get all employees: disk I/O error'' \<and>
   fst (search_employees (new_EmployeeSearchCriteria [] []) failing_db) =
     (result True ''Found 0 matching employees'')\<lparr>employees := Some []\<rparr> \<and>
   fst (search_employees (new_EmployeeSearchCriteria ''an'' []) failing_db) =
     result False ''Failed to search employees: Failed to search employees: disk I/O error'' \<and>
   fst (get_employee_statistics one_row_db) =
     \<lparr>success = True, message = None, errors = None, employee_id = None, employee = None,
      employees = None,
      statistics = Some \<lparr>total_employees = 1, total_departments = 1,
                         stats_departments = [''HR''],
                         employees_per_department = [(''HR'', 1)]\<rparr>,
      departments = None\<rparr>"
  by code_simp

text \<open>In particular the search reports success although the engine failed.\<close>

theorem empty_search_hides_engine_failure_witness:
  "engine_failed failing_db
     (snd (search_employees (new_EmployeeSearchCriteria [] []) failing_db)) \<and>
   success (fst (search_employees (new_EmployeeSearchCriteria [] []) failing_db))"
proof -
  note t = empty_search_hides_engine_failure
  from t have f: "engine_failed failing_db
     (snd (search_employees (new_EmployeeSearchCriteria [] []) failing_db))"
    by (elim conjE)
  from t have c: "fst (search_employees (new_EmployeeSearchCriteria [] []) failing_db) =
     (result True ''Found 0 matching employees'')\<lparr>employees := Some []\<rparr>"
    by (elim conjE)
  have "success ((result True ''Found 0 matching employees'')\<lparr>employees := Some []\<rparr>)"
    by (simp add: result_def)
  with c have "success (fst (search_employees (new_EmployeeSearchCriteria [] []) failing_db))"
    by (simp only:)
  with f show ?thesis by (intro conjI)
qed

end
